theory Spec2Isabelle
  imports Main "HOL-Library.AList" "HOL-Library.Char_ord" "HOL-Library.List_Lexorder"
begin

section \<open>Python values used by the trainer\<close>

text \<open>
  Strings are lists of 8-bit characters read as ASCII text. Python's case conversions
  and whitespace tests are modelled on the ASCII range; a character above 127 is kept
  as it is by \<open>lower\<close> and \<open>title\<close> and is not stripped by \<open>strip\<close>.
  Python's unbounded \<open>int\<close> is \<open>int\<close>. A \<open>dict\<close> is an association list
  in insertion order: \<open>map_of\<close> is the lookup, \<open>AList.update\<close> the item assignment
  (it replaces the value of a present key in place and appends an absent key).
\<close>

text \<open>The exceptions the program raises or lets through, each with its arguments.\<close>

datatype exn =
    KeyError string
  | ProcessNotFoundError string
  | EOFError
  | SystemExit int

text \<open>The class of an exception, which is what an \<open>except\<close> clause tests.\<close>

datatype exn_class = KeyError_class | ProcessNotFoundError_class | EOFError_class | SystemExit_class

fun class_of :: "exn \<Rightarrow> exn_class" where
  "class_of (KeyError m) = KeyError_class"
| "class_of (ProcessNotFoundError m) = ProcessNotFoundError_class"
| "class_of EOFError = EOFError_class"
| "class_of (SystemExit c) = SystemExit_class"

subsection \<open>String methods and formatting\<close>

definition ascii_uppercase :: string where
  "ascii_uppercase = ''ABCDEFGHIJKLMNOPQRSTUVWXYZ''"

definition ascii_lowercase :: string where
  "ascii_lowercase = ''abcdefghijklmnopqrstuvwxyz''"

definition is_upper :: "char \<Rightarrow> bool" where
  "is_upper c = (c \<in> set ascii_uppercase)"

definition is_lower :: "char \<Rightarrow> bool" where
  "is_lower c = (c \<in> set ascii_lowercase)"

definition lower_char :: "char \<Rightarrow> char" where
  "lower_char c = (case map_of (zip ascii_uppercase ascii_lowercase) c of Some l \<Rightarrow> l | None \<Rightarrow> c)"

definition upper_char :: "char \<Rightarrow> char" where
  "upper_char c = (case map_of (zip ascii_lowercase ascii_uppercase) c of Some u \<Rightarrow> u | None \<Rightarrow> c)"

text \<open>\<open>str.lower()\<close>.\<close>

definition lower :: "string \<Rightarrow> string" where
  "lower s = map lower_char s"

text \<open>
  \<open>str.title()\<close>: a cased character is upper-cased when the character before it is
  not cased (or there is none) and lower-cased otherwise; uncased characters are kept.
\<close>

fun title_from :: "bool \<Rightarrow> string \<Rightarrow> string" where
  "title_from previous_is_cased [] = []"
| "title_from previous_is_cased (c # cs) =
     (if previous_is_cased then lower_char c else upper_char c)
       # title_from (is_upper c \<or> is_lower c) cs"

definition title :: "string \<Rightarrow> string" where
  "title s = title_from False s"



text \<open>\<open>sep.join(parts)\<close>.\<close>

fun join :: "string \<Rightarrow> string list \<Rightarrow> string" where
  "join sep [] = []"
| "join sep [x] = x"
| "join sep (x # y # ys) = x @ sep @ join sep (y # ys)"

definition hex_digit :: "nat \<Rightarrow> char" where
  "hex_digit d = ''0123456789ABCDEF'' ! d"

text \<open>
  The upper-case hexadecimal digits of a natural number, most significant first. The
  digit function is only applied below 16 (below 10 for the decimal one).
\<close>

fun hex_upper :: "nat \<Rightarrow> string" where
  "hex_upper n = (if n < 16 then [hex_digit n] else hex_upper (n div 16) @ [hex_digit (n mod 16)])"

declare hex_upper.simps [simp del]

definition zero_pad :: "nat \<Rightarrow> string \<Rightarrow> string" where
  "zero_pad width s = replicate (width - length s) (CHR ''0'') @ s"

text \<open>
  The format specification \<open>08X\<close> of an f-string: upper-case hexadecimal, padded with
  zeros to a minimum width of 8; the sign of a negative number comes first and counts
  in the width. A number with more digits is printed in full.
\<close>

definition format_08X :: "int \<Rightarrow> string" where
  "format_08X n =
     (if n < 0 then CHR ''-'' # zero_pad 7 (hex_upper (nat (- n)))
      else zero_pad 8 (hex_upper (nat n)))"

definition dec_digit :: "nat \<Rightarrow> char" where
  "dec_digit d = ''0123456789'' ! d"

fun dec_digits :: "nat \<Rightarrow> string" where
  "dec_digits n = (if n < 10 then [dec_digit n] else dec_digits (n div 10) @ [dec_digit (n mod 10)])"

declare dec_digits.simps [simp del]

text \<open>\<open>str(n)\<close> of an integer, which is also what \<open>%s\<close> prints for it.\<close>

definition str_int :: "int \<Rightarrow> string" where
  "str_int n = (if n < 0 then CHR ''-'' # dec_digits (nat (- n)) else dec_digits (nat n))"

text \<open>\<open>str(b)\<close> of a boolean.\<close>

definition str_bool :: "bool \<Rightarrow> string" where
  "str_bool b = (if b then ''True'' else ''False'')"

section \<open>game\_config.py\<close>

record MemoryAddress =
  base :: int
  offsets :: "int list"

text \<open>\<open>MemoryAddress.describe\<close>. An empty string is false in the conditional expression.\<close>

definition describe :: "MemoryAddress \<Rightarrow> string" where
  "describe self =
     (let formatted_offsets = join '' -> '' (map (\<lambda>offset. ''0x'' @ format_08X offset) (offsets self))
      in (''0x'' @ format_08X (base self))
           @ (if formatted_offsets \<noteq> [] then '' -> '' @ formatted_offsets else []))"

record GameConfig =
  name :: string
  process_name :: string
  description :: string
  base_addresses :: "(string \<times> MemoryAddress) list"
  function_hooks :: "(string \<times> MemoryAddress) list"
  "notes" :: "string option"

definition PWS_V1_CONFIG :: GameConfig where
  "PWS_V1_CONFIG = \<lparr>
     name = ''PowerWash Simulator'',
     process_name = ''PowerWashSimulator.exe'',
     description = ''Original release of PowerWash Simulator on Windows'',
     base_addresses = [
       (''currency'', \<lparr>base = 0, offsets = []\<rparr>),
       (''soap'', \<lparr>base = 0, offsets = []\<rparr>),
       (''dirt_level'', \<lparr>base = 0, offsets = []\<rparr>),
       (''flight'', \<lparr>base = 0, offsets = []\<rparr>)],
     function_hooks = [
       (''instant_clean'', \<lparr>base = 0, offsets = []\<rparr>),
       (''dirt_esp'', \<lparr>base = 0, offsets = []\<rparr>)],
     notes = Some (''Placeholder values copied from the legacy trainer. Replace with the''
       @ [CHR 0x0A] @ '' actual addresses when porting the old functionality.'')\<rparr>"

definition PWS_V2_CONFIG :: GameConfig where
  "PWS_V2_CONFIG = \<lparr>
     name = ''PowerWash Simulator 2'',
     process_name = ''PowerWashSimulator2.exe'',
     description = ''Sequel release. All offsets below must be verified.'',
     base_addresses = [
       (''currency'', \<lparr>base = 0, offsets = []\<rparr>),
       (''soap'', \<lparr>base = 0, offsets = []\<rparr>),
       (''dirt_level'', \<lparr>base = 0, offsets = []\<rparr>),
       (''flight'', \<lparr>base = 0, offsets = []\<rparr>)],
     function_hooks = [
       (''instant_clean'', \<lparr>base = 0, offsets = []\<rparr>),
       (''dirt_esp'', \<lparr>base = 0, offsets = []\<rparr>)],
     notes = Some (''All addresses are placeholders. Replace them after scanning the sequel's''
       @ [CHR 0x0A] @ '' memory. Use MemoryAddress.describe() to log chains during development.'')\<rparr>"

definition SUPPORTED_GAMES :: "(string \<times> GameConfig) list" where
  "SUPPORTED_GAMES = [(''v1'', PWS_V1_CONFIG), (''v2'', PWS_V2_CONFIG)]"

text \<open>
  \<open>get_game_config\<close>: the \<open>KeyError\<close> of the failed subscript is caught and a
  \<open>KeyError\<close> carrying the message with the version as it was given is raised.
\<close>

definition get_game_config :: "string \<Rightarrow> exn + GameConfig" where
  "get_game_config version =
     (let normalized = lower version
      in case map_of SUPPORTED_GAMES normalized of
           Some config \<Rightarrow> Inr config
         | None \<Rightarrow> Inl (KeyError (''Unsupported game version '' @ [CHR 0x27] @ version @ [CHR 0x27] @ ''.'')))"

section \<open>Logging\<close>

text \<open>
  The program logs through two module loggers, the one of main.py and the one of
  utility.py. Neither has a level of its own, so a record is handled when its level is
  at least the root logger's level, which is WARNING until \<open>logging.basicConfig\<close>
  sets it. The state of the logging module is the root level, whether the root logger
  has a handler yet, and the records handled so far, oldest first. The levels are the
  four the program logs at or sets.
\<close>

datatype level = DEBUG | INFO | WARNING | ERROR

fun level_no :: "level \<Rightarrow> nat" where
  "level_no DEBUG = 10"
| "level_no INFO = 20"
| "level_no WARNING = 30"
| "level_no ERROR = 40"

datatype logger = main_logger | utility_logger

type_synonym log_record = "level \<times> logger \<times> string"

record logging =
  root_level :: level
  has_handlers :: bool
  records :: "log_record list"

text \<open>\<open>logger.debug\<close>, \<open>logger.info\<close> and \<open>logger.error\<close> of either module logger.\<close>

definition log_to :: "logger \<Rightarrow> level \<Rightarrow> string \<Rightarrow> logging \<Rightarrow> logging" where
  "log_to lg lv msg L =
     (if level_no (root_level L) \<le> level_no lv then L\<lparr>records := records L @ [(lv, lg, msg)]\<rparr>
      else L)"


section \<open>utility.py\<close>

record AttachedProcess =
  name :: string
  pid :: int
  handle :: "unit option"

text \<open>
  A process as \<open>psutil.process_iter(["name"])\<close> yields it: the \<open>name\<close> entry of its
  \<open>info\<close> (None when the name could not be read) and its pid. The module variable
  \<open>psutil\<close> is None when the import failed, and otherwise gives the processes in the
  order of the iteration.
\<close>

type_synonym ps_process = "string option \<times> int"

definition find_process_by_name :: "ps_process list option \<Rightarrow> string \<Rightarrow> exn + ps_process" where
  "find_process_by_name psutil process_name' =
     (case psutil of
        None \<Rightarrow>
          Inl (ProcessNotFoundError
            (''psutil is not installed. Install it with 'pip install psutil' ''
              @ ''before attempting to attach to the game process.''))
      | Some process_iter \<Rightarrow>
          (case find (\<lambda>process. fst process = Some process_name') process_iter of
             Some process \<Rightarrow> Inr process
           | None \<Rightarrow>
               Inl (ProcessNotFoundError
                 (''Could not locate running process '' @ [CHR 0x27] @ process_name' @ [CHR 0x27]
                   @ ''. Make sure the game '' @ ''is running before enabling cheats.''))))"

definition attach_to_process ::
  "GameConfig \<Rightarrow> ps_process list option \<Rightarrow> logging \<Rightarrow> (exn + AttachedProcess) \<times> logging" where
  "attach_to_process config psutil L =
     (let L1 = log_to utility_logger DEBUG (''Attempting to attach to '' @ process_name config) L
      in case find_process_by_name psutil (process_name config) of
           Inl e \<Rightarrow> (Inl e, L1)
         | Inr process \<Rightarrow>
             (Inr \<lparr>name = process_name config, pid = snd process, handle = None\<rparr>,
              log_to utility_logger INFO
                (''Attached to '' @ process_name config @ '' (pid='' @ str_int (snd process) @ '')'') L1))"

definition log_address_chain :: "string \<Rightarrow> MemoryAddress \<Rightarrow> logging \<Rightarrow> logging" where
  "log_address_chain label address L =
     log_to utility_logger DEBUG (label @ '' address chain: '' @ describe address) L"

section \<open>main.py: the cheat callbacks\<close>

text \<open>
  A callback is given the process, the profile and the target state and returns nothing.
  What it does is write log records; a subscript with a key the profile lacks raises
  \<open>KeyError\<close> with that key. The result is the exception raised, if any, and the
  logging state it leaves. A callback is handed no reference to a feature or to the
  registry, and its type here gives it none.
\<close>

type_synonym ToggleCallback =
  "AttachedProcess \<Rightarrow> GameConfig \<Rightarrow> bool \<Rightarrow> logging \<Rightarrow> exn option \<times> logging"

definition toggle_infinite_soap :: ToggleCallback where
  "toggle_infinite_soap process config enabled L =
     (case map_of (base_addresses config) ''soap'' of
        None \<Rightarrow> (Some (KeyError ''soap''), L)
      | Some address \<Rightarrow>
          (None,
           log_to main_logger DEBUG
             (''(Infinite Soap) Would '' @ (if enabled then ''freeze'' else ''release'')
               @ '' memory at '' @ describe address @ '' for process '' @ str_int (pid process))
             (log_address_chain ''soap'' address L)))"

definition toggle_instant_clean :: ToggleCallback where
  "toggle_instant_clean process config enabled L =
     (case map_of (function_hooks config) ''instant_clean'' of
        None \<Rightarrow> (Some (KeyError ''instant_clean''), L)
      | Some hook \<Rightarrow>
          (None,
           log_to main_logger DEBUG
             (''(Instant Clean) Would '' @ (if enabled then ''install'' else ''remove'')
               @ '' hook at '' @ describe hook @ '' for process '' @ str_int (pid process))
             (log_address_chain ''instant_clean'' hook L)))"

definition toggle_flight :: ToggleCallback where
  "toggle_flight process config enabled L =
     (case map_of (base_addresses config) ''flight'' of
        None \<Rightarrow> (Some (KeyError ''flight''), L)
      | Some address \<Rightarrow>
          (None,
           log_to main_logger DEBUG
             (''(Flight) Would set flight flag to '' @ str_bool enabled
               @ '' at '' @ describe address @ '' for process '' @ str_int (pid process))
             (log_address_chain ''flight'' address L)))"

definition toggle_dirt_esp :: ToggleCallback where
  "toggle_dirt_esp process config enabled L =
     (case map_of (function_hooks config) ''dirt_esp'' of
        None \<Rightarrow> (Some (KeyError ''dirt_esp''), L)
      | Some hook \<Rightarrow>
          (None,
           log_to main_logger DEBUG
             (''(Dirt ESP) Would '' @ (if enabled then ''enable'' else ''disable'')
               @ '' visualization hook at '' @ describe hook @ '' for process '' @ str_int (pid process))
             (log_address_chain ''dirt_esp'' hook L)))"

section \<open>main.py: features and their registry\<close>

text \<open>
  What the program does to the outside: the logging state, the strings written to the
  standard output in order, and the callback invocations made so far, each with the
  identifier of the feature whose callback it was and the three arguments passed. The
  list of invocations is an observation of the run: nothing reads it.
\<close>

type_synonym invocation = "string \<times> AttachedProcess \<times> GameConfig \<times> bool"

record world =
  logging :: logging
  stdout :: "string list"
  calls :: "invocation list"

record CheatFeature =
  "identifier" :: string
  label :: string
  callback :: ToggleCallback
  enabled :: bool

text \<open>
  \<open>CheatFeature.toggle\<close>: the flag is assigned, the change is logged, then the
  callback is called with the new flag. An exception of the callback leaves through
  \<open>toggle\<close>; the feature object keeps the assignment made before the call.
\<close>

definition CheatFeature_toggle ::
  "CheatFeature \<Rightarrow> AttachedProcess \<Rightarrow> GameConfig \<Rightarrow> world \<Rightarrow> exn option \<times> CheatFeature \<times> world" where
  "CheatFeature_toggle self process config w =
     (let self1 = self\<lparr>enabled := \<not> enabled self\<rparr>;
          L1 = log_to main_logger INFO
                 (label self1 @ '' -> '' @ (if enabled self1 then ''ON'' else ''OFF'')) (logging w);
          w1 = w\<lparr>logging := L1,
                 calls := calls w @ [(identifier self1, process, config, enabled self1)]\<rparr>;
          (raised, L2) = callback self1 process config (enabled self1) L1
      in (raised, self1, w1\<lparr>logging := L2\<rparr>))"

definition CHEAT_NAMES :: "(string \<times> string) list" where
  "CHEAT_NAMES = [
     (''soap'', ''Infinite Soap''),
     (''instant_clean'', ''Instant Clean''),
     (''flight'', ''Flight''),
     (''dirt_esp'', ''Dirt ESP'')]"


record CheatManager =
  process :: AttachedProcess
  config :: GameConfig
  features :: "(string \<times> CheatFeature) list"

text \<open>\<open>CheatManager.__init__\<close>.\<close>

definition CheatManager_init :: "AttachedProcess \<Rightarrow> GameConfig \<Rightarrow> CheatManager" where
  "CheatManager_init p c = \<lparr>process = p, config = c, features = []\<rparr>"

text \<open>\<open>CheatManager.register\<close>; \<open>dict.get(key, default)\<close> is the lookup with a default.\<close>

definition register :: "CheatManager \<Rightarrow> string \<Rightarrow> ToggleCallback \<Rightarrow> CheatManager" where
  "register self ident cb =
     (let lbl = (case map_of CHEAT_NAMES ident of Some n \<Rightarrow> n | None \<Rightarrow> title ident)
      in self\<lparr>features :=
           AList.update ident \<lparr>identifier = ident, label = lbl, callback = cb, enabled = False\<rparr>
             (features self)\<rparr>)"

text \<open>
  \<open>CheatManager.toggle\<close>. A feature object is always true, so \<open>not feature\<close> holds
  exactly when \<open>dict.get\<close> returned None. The feature is changed in place: the
  dictionary holds the changed feature under the same key.
\<close>

definition CheatManager_toggle ::
  "CheatManager \<Rightarrow> string \<Rightarrow> world \<Rightarrow> exn option \<times> CheatManager \<times> world" where
  "CheatManager_toggle self ident w =
     (case map_of (features self) ident of
        None \<Rightarrow>
          (None, self,
           w\<lparr>logging := log_to main_logger ERROR
                (''Unknown cheat '' @ [CHR 0x27] @ ident @ [CHR 0x27]) (logging w)\<rparr>)
      | Some feature \<Rightarrow>
          (let (raised, feature1, w1) = CheatFeature_toggle feature (process self) (config self) w
           in (raised, self\<lparr>features := AList.update ident feature1 (features self)\<rparr>, w1)))"

section \<open>main.py: the command line\<close>







text \<open>
  \<open>build_manager\<close>: an exception of \<open>attach_to_process\<close> leaves through it before
  any manager exists.
\<close>

definition build_manager ::
  "GameConfig \<Rightarrow> ps_process list option \<Rightarrow> world \<Rightarrow> (exn + CheatManager) \<times> world" where
  "build_manager cfg psutil w =
     (case attach_to_process cfg psutil (logging w) of
        (Inl e, L) \<Rightarrow> (Inl e, w\<lparr>logging := L\<rparr>)
      | (Inr proc, L) \<Rightarrow>
          (let manager = CheatManager_init proc cfg;
               manager = register manager ''soap'' toggle_infinite_soap;
               manager = register manager ''instant_clean'' toggle_instant_clean;
               manager = register manager ''flight'' toggle_flight;
               manager = register manager ''dirt_esp'' toggle_dirt_esp
           in (Inr manager, w\<lparr>logging := L\<rparr>)))"












section \<open>Reference rendering and the shipped registry\<close>



section \<open>Values used in the examples\<close>

text \<open>The state of a fresh interpreter: nothing logged or printed, root level WARNING.\<close>

definition initial_world :: world where
  "initial_world =
     \<lparr>logging = \<lparr>root_level = WARNING, has_handlers = False, records = []\<rparr>,
      stdout = [], calls = []\<rparr>"

definition example_process :: AttachedProcess where
  "example_process = \<lparr>name = ''PowerWashSimulator.exe'', pid = 4242, handle = None\<rparr>"

text \<open>The registry \<open>build_manager\<close> makes for the first profile and that process.\<close>

definition example_manager :: CheatManager where
  "example_manager =
     register (register (register (register (CheatManager_init example_process PWS_V1_CONFIG)
       ''soap'' toggle_infinite_soap) ''instant_clean'' toggle_instant_clean)
       ''flight'' toggle_flight) ''dirt_esp'' toggle_dirt_esp"

definition soap_feature :: CheatFeature where
  "soap_feature =
     \<lparr>identifier = ''soap'', label = ''Infinite Soap'', callback = toggle_infinite_soap,
      enabled = False\<rparr>"

text \<open>A profile of a build whose addresses have not been entered yet.\<close>

definition bare_profile :: GameConfig where
  "bare_profile =
     \<lparr>GameConfig.name = ''Unported build'', process_name = ''Unported.exe'',
      description = ''No addresses yet'', base_addresses = [], function_hooks = [], notes = None\<rparr>"

section \<open>Properties\<close>

lemmas lower_defs = lower_def lower_char_def ascii_uppercase_def ascii_lowercase_def

lemmas callback_defs =
  toggle_infinite_soap_def toggle_instant_clean_def toggle_flight_def toggle_dirt_esp_def

subsection \<open>Rendering an address\<close>











subsection \<open>Selecting a profile\<close>

text \<open>
  C5. A version whose lower-cased form is \<open>v1\<close> or \<open>v2\<close> gets exactly the profile
  defined for that key, whatever its case. Every other string fails: the result is the
  exception, whose message holds the string as it was given, and no profile is returned.
  The exception the code raises for this failure is Python's \<open>KeyError\<close>.
\<close>

theorem get_game_config_supported_or_error:
  "(lower version = ''v1'' \<longrightarrow> get_game_config version = Inr PWS_V1_CONFIG)
   \<and> (lower version = ''v2'' \<longrightarrow> get_game_config version = Inr PWS_V2_CONFIG)
   \<and> (lower version \<noteq> ''v1'' \<and> lower version \<noteq> ''v2'' \<longrightarrow>
        get_game_config version =
          Inl (KeyError (''Unsupported game version '' @ [CHR 0x27] @ version @ [CHR 0x27] @ ''.'')))"
  by (simp add: get_game_config_def SUPPORTED_GAMES_def)

theorem get_game_config_supported_or_error_witness:
  "lower ''V2'' = ''v2'' \<and> get_game_config ''V2'' = Inr PWS_V2_CONFIG
   \<and> lower ''v1'' = ''v1'' \<and> get_game_config ''v1'' = Inr PWS_V1_CONFIG
   \<and> lower ''V3'' \<noteq> ''v1'' \<and> lower ''V3'' \<noteq> ''v2''
   \<and> get_game_config ''V3'' = Inl (KeyError ''Unsupported game version 'V3'.'')"
proof -
  have l2: "lower ''V2'' = ''v2''" by (simp add: lower_defs)
  have l1: "lower ''v1'' = ''v1''" by (simp add: lower_defs)
  have l3: "lower ''V3'' \<noteq> ''v1'' \<and> lower ''V3'' \<noteq> ''v2''" by (simp add: lower_defs)
  from get_game_config_supported_or_error [of "''V2''"] l2
  have g2: "get_game_config ''V2'' = Inr PWS_V2_CONFIG" by blast
  from get_game_config_supported_or_error [of "''v1''"] l1
  have g1: "get_game_config ''v1'' = Inr PWS_V1_CONFIG" by blast
  from get_game_config_supported_or_error [of "''V3''"] l3
  have g3: "get_game_config ''V3'' = Inl (KeyError ''Unsupported game version 'V3'.'')" by simp
  from l1 l2 l3 g1 g2 g3 show ?thesis by blast
qed

subsection \<open>The shipped profiles and the callbacks\<close>


text \<open>
  C10. In both shipped profiles the keys the four callbacks look up are present:
  \<open>soap\<close> and \<open>flight\<close> among the base addresses, \<open>instant_clean\<close> and
  \<open>dirt_esp\<close> among the function hooks. So with either profile none of the four
  callbacks raises, for any process, target state and logging state.
\<close>

theorem shipped_profiles_have_callback_keys:
  "map_of (base_addresses PWS_V1_CONFIG) ''soap'' \<noteq> None
   \<and> map_of (base_addresses PWS_V1_CONFIG) ''flight'' \<noteq> None
   \<and> map_of (function_hooks PWS_V1_CONFIG) ''instant_clean'' \<noteq> None
   \<and> map_of (function_hooks PWS_V1_CONFIG) ''dirt_esp'' \<noteq> None
   \<and> map_of (base_addresses PWS_V2_CONFIG) ''soap'' \<noteq> None
   \<and> map_of (base_addresses PWS_V2_CONFIG) ''flight'' \<noteq> None
   \<and> map_of (function_hooks PWS_V2_CONFIG) ''instant_clean'' \<noteq> None
   \<and> map_of (function_hooks PWS_V2_CONFIG) ''dirt_esp'' \<noteq> None
   \<and> fst (toggle_infinite_soap p PWS_V1_CONFIG e L) = None
   \<and> fst (toggle_instant_clean p PWS_V1_CONFIG e L) = None
   \<and> fst (toggle_flight p PWS_V1_CONFIG e L) = None
   \<and> fst (toggle_dirt_esp p PWS_V1_CONFIG e L) = None
   \<and> fst (toggle_infinite_soap p PWS_V2_CONFIG e L) = None
   \<and> fst (toggle_instant_clean p PWS_V2_CONFIG e L) = None
   \<and> fst (toggle_flight p PWS_V2_CONFIG e L) = None
   \<and> fst (toggle_dirt_esp p PWS_V2_CONFIG e L) = None"
  by (simp add: callback_defs PWS_V1_CONFIG_def PWS_V2_CONFIG_def)

subsection \<open>Toggling\<close>

lemma error_always_handled: "level_no (root_level L) \<le> level_no ERROR"
  by (cases "root_level L") simp_all

text \<open>
  C4. Toggling an identifier that is not registered returns without raising, leaves the
  manager as it was (so no feature's flag changes), adds exactly one record, at level
  ERROR, to the log, and changes nothing else of the world: no callback is invoked.
\<close>

theorem toggle_unregistered:
  "map_of (features manager) ident = None \<Longrightarrow>
     CheatManager_toggle manager ident w =
       (None, manager,
        w\<lparr>logging := (logging w)\<lparr>records := records (logging w)
             @ [(ERROR, main_logger, ''Unknown cheat '' @ [CHR 0x27] @ ident @ [CHR 0x27])]\<rparr>\<rparr>)"
  using error_always_handled [of "logging w"]
  by (simp add: CheatManager_toggle_def log_to_def)

theorem toggle_unregistered_witness:
  "map_of (features example_manager) ''godmode'' = None
   \<and> CheatManager_toggle example_manager ''godmode'' initial_world =
       (None, example_manager,
        initial_world\<lparr>logging := \<lparr>root_level = WARNING, has_handlers = False,
          records = [(ERROR, main_logger, ''Unknown cheat 'godmode'' @ [CHR 0x27])]\<rparr>\<rparr>)"
proof -
  have h: "map_of (features example_manager) ''godmode'' = None"
    by (simp add: example_manager_def register_def CheatManager_init_def)
  show ?thesis using h toggle_unregistered [OF h, of initial_world]
    by (simp add: initial_world_def)
qed

lemma example_manager_features:
  "features example_manager =
     [(''soap'', soap_feature),
      (''instant_clean'', \<lparr>identifier = ''instant_clean'', label = ''Instant Clean'',
         callback = toggle_instant_clean, enabled = False\<rparr>),
      (''flight'', \<lparr>identifier = ''flight'', label = ''Flight'',
         callback = toggle_flight, enabled = False\<rparr>),
      (''dirt_esp'', \<lparr>identifier = ''dirt_esp'', label = ''Dirt ESP'',
         callback = toggle_dirt_esp, enabled = False\<rparr>)]"
  by (simp add: example_manager_def register_def CheatManager_init_def CHEAT_NAMES_def
      soap_feature_def)

lemma example_manager_fields:
  "process example_manager = example_process" "config example_manager = PWS_V1_CONFIG"
  by (simp_all add: example_manager_def register_def CheatManager_init_def)

text \<open>What \<open>CheatFeature.toggle\<close> returns, with the local bindings unfolded.\<close>

lemma CheatFeature_toggle_eq:
  "CheatFeature_toggle feature p c w =
     (fst (callback feature p c (\<not> enabled feature)
            (log_to main_logger INFO
               (label feature @ '' -> '' @ (if enabled feature then ''OFF'' else ''ON'')) (logging w))),
      feature\<lparr>enabled := \<not> enabled feature\<rparr>,
      w\<lparr>logging := snd (callback feature p c (\<not> enabled feature)
            (log_to main_logger INFO
               (label feature @ '' -> '' @ (if enabled feature then ''OFF'' else ''ON'')) (logging w))),
        calls := calls w @ [(identifier feature, p, c, \<not> enabled feature)]\<rparr>)"
  by (simp add: CheatFeature_toggle_def Let_def split_beta)

lemma CheatManager_toggle_registered:
  "map_of (features manager) ident = Some feature \<Longrightarrow>
     CheatManager_toggle manager ident w =
       (fst (CheatFeature_toggle feature (process manager) (config manager) w),
        manager\<lparr>features :=
          AList.update ident (feature\<lparr>enabled := \<not> enabled feature\<rparr>) (features manager)\<rparr>,
        snd (snd (CheatFeature_toggle feature (process manager) (config manager) w)))"
  by (simp add: CheatManager_toggle_def CheatFeature_toggle_eq)


text \<open>
  C1. Every call of \<open>CheatFeature.toggle\<close> flips the flag of the feature, whatever the
  state, and invokes the callback of the feature exactly once: one invocation is added
  to those made so far, with the process, the profile and the new flag, and what
  \<open>toggle\<close> raises and leaves in the log is what that one call of the callback, made
  after the change was logged, raises and leaves. \<open>CheatManager.toggle\<close> of a
  registered identifier does this with the process and the profile of the registry and
  keeps the flipped feature under its key.
\<close>

theorem toggle_flips_and_calls_once:
  "enabled (fst (snd (CheatFeature_toggle feature p c w))) = (\<not> enabled feature)
   \<and> calls (snd (snd (CheatFeature_toggle feature p c w)))
        = calls w @ [(identifier feature, p, c, \<not> enabled feature)]
   \<and> (fst (CheatFeature_toggle feature p c w),
        logging (snd (snd (CheatFeature_toggle feature p c w))))
        = callback feature p c (\<not> enabled feature)
            (log_to main_logger INFO
               (label feature @ '' -> '' @ (if enabled feature then ''OFF'' else ''ON'')) (logging w))
   \<and> (map_of (features manager) ident = Some feature \<longrightarrow>
        map_of (features (fst (snd (CheatManager_toggle manager ident w)))) ident
          = Some (feature\<lparr>enabled := \<not> enabled feature\<rparr>)
        \<and> calls (snd (snd (CheatManager_toggle manager ident w)))
          = calls w @ [(identifier feature, process manager, config manager, \<not> enabled feature)]
        \<and> (fst (CheatManager_toggle manager ident w),
             logging (snd (snd (CheatManager_toggle manager ident w))))
          = callback feature (process manager) (config manager) (\<not> enabled feature)
              (log_to main_logger INFO
                 (label feature @ '' -> '' @ (if enabled feature then ''OFF'' else ''ON''))
                 (logging w)))"
  by (simp add: CheatManager_toggle_registered CheatFeature_toggle_eq update_conv')

theorem toggle_flips_and_calls_once_witness:
  "map_of (features example_manager) ''soap'' = Some soap_feature
   \<and> enabled soap_feature = False
   \<and> map_of (features (fst (snd (CheatManager_toggle example_manager ''soap'' initial_world)))) ''soap''
        = Some (soap_feature\<lparr>enabled := True\<rparr>)
   \<and> calls (snd (snd (CheatManager_toggle example_manager ''soap'' initial_world)))
        = [(''soap'', example_process, PWS_V1_CONFIG, True)]"
proof -
  have h: "map_of (features example_manager) ''soap'' = Some soap_feature"
    by (simp add: example_manager_features)
  have e: "enabled soap_feature = False" "identifier soap_feature = ''soap''"
    by (simp_all add: soap_feature_def)
  from toggle_flips_and_calls_once [of soap_feature _ _ initial_world example_manager "''soap''"] h
  have "map_of (features (fst (snd (CheatManager_toggle example_manager ''soap'' initial_world)))) ''soap''
          = Some (soap_feature\<lparr>enabled := \<not> enabled soap_feature\<rparr>)"
    and "calls (snd (snd (CheatManager_toggle example_manager ''soap'' initial_world)))
          = calls initial_world @ [(identifier soap_feature, process example_manager,
               config example_manager, \<not> enabled soap_feature)]"
    by blast+
  with h e show ?thesis
    by (simp add: example_manager_fields initial_world_def)
qed



text \<open>
  C2, as the claim states it, fails: the flag is assigned before the callback is called
  and nothing restores it. With a profile that lacks the \<open>soap\<close> address the callback
  raises \<open>KeyError\<close>, and the feature, disabled before, is enabled afterwards.
\<close>

theorem failed_callback_counterexample:
  "fst (CheatFeature_toggle soap_feature example_process bare_profile initial_world)
     = Some (KeyError ''soap'')
   \<and> enabled soap_feature = False
   \<and> enabled (fst (snd (CheatFeature_toggle soap_feature example_process bare_profile initial_world)))
     = True"
  by (simp add: CheatFeature_toggle_eq soap_feature_def bare_profile_def toggle_infinite_soap_def)

text \<open>
  C2, amended. If the callback of a feature raises during \<open>toggle\<close>, the exception
  leaves through \<open>toggle\<close> and the flag stays flipped: the feature holds the new
  value, the one the callback was called with, not the prior one.
\<close>

theorem failed_callback_keeps_flip:
  assumes "fst (callback feature p c (\<not> enabled feature)
            (log_to main_logger INFO
               (label feature @ '' -> '' @ (if enabled feature then ''OFF'' else ''ON''))
               (logging w))) = Some e"
  shows "fst (CheatFeature_toggle feature p c w) = Some e
    \<and> fst (snd (CheatFeature_toggle feature p c w)) = feature\<lparr>enabled := \<not> enabled feature\<rparr>
    \<and> enabled (fst (snd (CheatFeature_toggle feature p c w))) \<noteq> enabled feature"
  using assms by (simp add: CheatFeature_toggle_eq)

theorem failed_callback_keeps_flip_witness:
  "fst (callback soap_feature example_process bare_profile (\<not> enabled soap_feature)
         (log_to main_logger INFO
            (label soap_feature @ '' -> '' @ (if enabled soap_feature then ''OFF'' else ''ON''))
            (logging initial_world))) = Some (KeyError ''soap'')
   \<and> fst (CheatFeature_toggle soap_feature example_process bare_profile initial_world)
        = Some (KeyError ''soap'')
   \<and> fst (snd (CheatFeature_toggle soap_feature example_process bare_profile initial_world))
        = soap_feature\<lparr>enabled := True\<rparr>"
proof -
  have h: "fst (callback soap_feature example_process bare_profile (\<not> enabled soap_feature)
         (log_to main_logger INFO
            (label soap_feature @ '' -> '' @ (if enabled soap_feature then ''OFF'' else ''ON''))
            (logging initial_world))) = Some (KeyError ''soap'')"
    by (simp add: soap_feature_def bare_profile_def toggle_infinite_soap_def)
  from failed_callback_keeps_flip [OF h] h show ?thesis
    by (simp add: soap_feature_def)
qed

subsection \<open>Building the registry\<close>

text \<open>
  C7. A registry that \<open>build_manager\<close> returns holds exactly four features, under
  the keys \<open>soap\<close>, \<open>instant_clean\<close>, \<open>flight\<close> and \<open>dirt_esp\<close> in this order,
  each carrying its key as identifier, its display name and its callback, and each
  disabled.
\<close>

theorem build_manager_registers_four:
  assumes "build_manager cfg psutil w = (Inr manager, w1)"
  shows "map fst (features manager) = [''soap'', ''instant_clean'', ''flight'', ''dirt_esp'']
    \<and> list_all (\<lambda>(key, feature). identifier feature = key \<and> enabled feature = False)
          (features manager)
    \<and> map (\<lambda>(key, feature). label feature) (features manager)
         = [''Infinite Soap'', ''Instant Clean'', ''Flight'', ''Dirt ESP'']
    \<and> map (\<lambda>(key, feature). callback feature) (features manager)
         = [toggle_infinite_soap, toggle_instant_clean, toggle_flight, toggle_dirt_esp]
    \<and> config manager = cfg"
  using assms
  by (auto simp add: build_manager_def register_def CheatManager_init_def CHEAT_NAMES_def Let_def
      split: prod.splits sum.splits)

theorem build_manager_registers_four_witness:
  "build_manager PWS_V1_CONFIG (Some [(Some ''PowerWashSimulator.exe'', 4242)]) initial_world
     = (Inr example_manager, initial_world)
   \<and> map fst (features example_manager) = [''soap'', ''instant_clean'', ''flight'', ''dirt_esp'']
   \<and> list_all (\<lambda>(key, feature). identifier feature = key \<and> enabled feature = False)
         (features example_manager)"
proof -
  have h: "build_manager PWS_V1_CONFIG (Some [(Some ''PowerWashSimulator.exe'', 4242)]) initial_world
     = (Inr example_manager, initial_world)"
    by (simp add: build_manager_def attach_to_process_def find_process_by_name_def log_to_def
        initial_world_def example_manager_def example_process_def PWS_V1_CONFIG_def)
  from build_manager_registers_four [OF h] h show ?thesis by simp
qed

subsection \<open>Attaching to the process\<close>

text \<open>
  C9, as the claim states it, fails: the failure for a missing \<open>psutil\<close> is not of a
  kind of its own. With \<open>psutil\<close> missing and with no process running, the exception
  raised is of the same class, \<open>ProcessNotFoundError\<close>.
\<close>

theorem attach_failure_kinds_counterexample:
  "map_sum class_of id (find_process_by_name None ''PowerWashSimulator.exe'')
     = Inl ProcessNotFoundError_class
   \<and> map_sum class_of id (find_process_by_name (Some []) ''PowerWashSimulator.exe'')
     = Inl ProcessNotFoundError_class"
  by (simp add: find_process_by_name_def)

text \<open>
  C9, amended. Finding the process fails with \<open>ProcessNotFoundError\<close> when \<open>psutil\<close>
  is missing, with a message that tells how to install it, and with
  \<open>ProcessNotFoundError\<close> as well when no running process has the name, with a message
  that holds the name; when a process has the name, one with that name is returned.
  \<open>attach_to_process\<close> fails exactly as the search for the configured name does.
\<close>

theorem attach_failures_share_class:
  "find_process_by_name None pname =
     Inl (ProcessNotFoundError
       ''psutil is not installed. Install it with 'pip install psutil' before attempting to attach to the game process.'')
   \<and> ((\<forall>p \<in> set ps. fst p \<noteq> Some pname) \<longrightarrow>
        find_process_by_name (Some ps) pname =
          Inl (ProcessNotFoundError
            (''Could not locate running process '' @ [CHR 0x27] @ pname @ [CHR 0x27]
               @ ''. Make sure the game is running before enabling cheats.'')))
   \<and> ((\<exists>p \<in> set ps. fst p = Some pname) \<longrightarrow>
        (\<exists>p \<in> set ps. find_process_by_name (Some ps) pname = Inr p \<and> fst p = Some pname))
   \<and> fst (attach_to_process cfg psutil L) =
        map_sum id (\<lambda>p. \<lparr>name = process_name cfg, pid = snd p, handle = None\<rparr>)
          (find_process_by_name psutil (process_name cfg))"
proof -
  have c1: "find_process_by_name None pname =
     Inl (ProcessNotFoundError
       ''psutil is not installed. Install it with 'pip install psutil' before attempting to attach to the game process.'')"
    by (simp add: find_process_by_name_def)
  have c2: "(\<forall>p \<in> set ps. fst p \<noteq> Some pname) \<longrightarrow>
        find_process_by_name (Some ps) pname =
          Inl (ProcessNotFoundError
            (''Could not locate running process '' @ [CHR 0x27] @ pname @ [CHR 0x27]
               @ ''. Make sure the game is running before enabling cheats.''))"
  proof
    assume "\<forall>p \<in> set ps. fst p \<noteq> Some pname"
    then have "find (\<lambda>process. fst process = Some pname) ps = None"
      by (force simp add: find_None_iff)
    then show "find_process_by_name (Some ps) pname =
          Inl (ProcessNotFoundError
            (''Could not locate running process '' @ [CHR 0x27] @ pname @ [CHR 0x27]
               @ ''. Make sure the game is running before enabling cheats.''))"
      by (simp add: find_process_by_name_def)
  qed
  have c3: "(\<exists>p \<in> set ps. fst p = Some pname) \<longrightarrow>
        (\<exists>p \<in> set ps. find_process_by_name (Some ps) pname = Inr p \<and> fst p = Some pname)"
  proof
    assume "\<exists>p \<in> set ps. fst p = Some pname"
    then have "\<exists>p \<in> set ps. find (\<lambda>process. fst process = Some pname) ps = Some p
                 \<and> fst p = Some pname"
      by (induction ps) auto
    then show "\<exists>p \<in> set ps. find_process_by_name (Some ps) pname = Inr p \<and> fst p = Some pname"
      by (auto simp add: find_process_by_name_def)
  qed
  have c4: "fst (attach_to_process cfg psutil L) =
        map_sum id (\<lambda>p. \<lparr>name = process_name cfg, pid = snd p, handle = None\<rparr>)
          (find_process_by_name psutil (process_name cfg))"
    by (simp add: attach_to_process_def Let_def split: sum.splits)
  from c1 c2 c3 c4 show ?thesis by blast
qed

theorem attach_failures_share_class_witness:
  "Some ''PowerWashSimulator.exe'' \<notin> fst ` set [(Some ''explorer.exe'', 4::int), (None, 8)]
   \<and> find_process_by_name (Some [(Some ''explorer.exe'', 4), (None, 8)]) ''PowerWashSimulator.exe'' =
        Inl (ProcessNotFoundError
          ''Could not locate running process 'PowerWashSimulator.exe'. Make sure the game is running before enabling cheats.'')
   \<and> (\<exists>p \<in> set [(Some ''explorer.exe'', 4::int), (Some ''PowerWashSimulator.exe'', 4242)].
         fst p = Some ''PowerWashSimulator.exe'')
   \<and> find_process_by_name (Some [(Some ''explorer.exe'', 4), (Some ''PowerWashSimulator.exe'', 4242)])
        ''PowerWashSimulator.exe'' = Inr (Some ''PowerWashSimulator.exe'', 4242)"
proof -
  let ?absent = "[(Some ''explorer.exe'', 4), (None, 8)] :: ps_process list"
  let ?present = "[(Some ''explorer.exe'', 4), (Some ''PowerWashSimulator.exe'', 4242)] :: ps_process list"
  have h1: "\<forall>p \<in> set ?absent. fst p \<noteq> Some ''PowerWashSimulator.exe''" by simp
  have h2: "\<exists>p \<in> set ?present. fst p = Some ''PowerWashSimulator.exe''" by simp
  from attach_failures_share_class [of "''PowerWashSimulator.exe''" ?absent] h1
  have a: "find_process_by_name (Some ?absent) ''PowerWashSimulator.exe'' =
        Inl (ProcessNotFoundError
          ''Could not locate running process 'PowerWashSimulator.exe'. Make sure the game is running before enabling cheats.'')"
    by simp
  from attach_failures_share_class [of "''PowerWashSimulator.exe''" ?present] h2
  have "\<exists>p \<in> set ?present. find_process_by_name (Some ?present) ''PowerWashSimulator.exe'' = Inr p
          \<and> fst p = Some ''PowerWashSimulator.exe''"
    by blast
  then have b: "find_process_by_name (Some ?present) ''PowerWashSimulator.exe''
      = Inr (Some ''PowerWashSimulator.exe'', 4242)"
    by auto
  have h1': "Some ''PowerWashSimulator.exe'' \<notin> fst ` set ?absent" by simp
  from h1' h2 a b show ?thesis by blast
qed

subsection \<open>The command line and the exit status\<close>













end
